theory Spec2Isabelle
  imports Complex_Main
begin

section \<open>Texts and wire values\<close>

text \<open>
  A text is a \<^typ>\<open>string\<close>: the sequence of its characters. Isabelle's \<^typ>\<open>char\<close> has
  256 values, read here as the code points U+0000 to U+00FF; characters beyond that range
  are outside the model.

  What travels between client, proxy and inference engine is JSON. The rendering of a JSON
  value as bytes belongs to the standard libraries (\<open>encoding/json\<close>, \<open>JSON.stringify\<close>);
  the model stops at the JSON value. Numbers are idealised as \<^typ>\<open>real\<close>.
\<close>

datatype json =
    JNull
  | JBool bool
  | JNum real
  | JStr string
  | JArr "json list"
  | JObj "(string \<times> json) list"

text \<open>The names of the members of a JSON object; any other value has none.\<close>

fun keys :: "json \<Rightarrow> string list" where
  "keys (JObj kvs) = map fst kvs"
| "keys _ = []"


section \<open>The proxy (package main)\<close>

text \<open>
  The source holds the proxy twice. The two copies differ in their comments and in the
  text of the 405 message (\<open>Method not allowed\<close>, \<open>Not a POST request - Method not
  allowed\<close>); the first copy is the one embedded here, and nothing below depends on that
  text.
\<close>

subsection \<open>The structs and their JSON struct tags\<close>

record CompletionRequest =
  Model :: string
  Prompt :: string
  MaxTokens :: int

record Choice =
  Text :: string

record Usage =
  CompletionTokens :: int

record CompletionResponse =
  Choices :: "Choice list"
  Usage :: Usage

record OllamaRequest =
  Model :: string
  Prompt :: string
  Stream :: bool

record OllamaResponse =
  Model :: string
  Response :: string
  Done :: bool
  TotalDuration :: int
  EvalCount :: int

text \<open>
  \<open>json.Marshal\<close> and \<open>Encoder.Encode\<close> write a struct as the object of its tagged
  fields, in declaration order.
\<close>

definition OllamaRequest_json :: "OllamaRequest \<Rightarrow> json" where
  "OllamaRequest_json q =
     JObj [(''model'', JStr (OllamaRequest.Model q)),
           (''prompt'', JStr (OllamaRequest.Prompt q)),
           (''stream'', JBool (Stream q))]"

definition Choice_json :: "Choice \<Rightarrow> json" where
  "Choice_json c = JObj [(''text'', JStr (Text c))]"

definition Usage_json :: "Usage \<Rightarrow> json" where
  "Usage_json u = JObj [(''completion_tokens'', JNum (of_int (CompletionTokens u)))]"

definition CompletionResponse_json :: "CompletionResponse \<Rightarrow> json" where
  "CompletionResponse_json p =
     JObj [(''choices'', JArr (map Choice_json (Choices p))),
           (''usage'', Usage_json (Usage p))]"


subsection \<open>bytes.Fields\<close>

text \<open>
  \<open>unicode.IsSpace\<close> on the Latin-1 range: tab, line feed, vertical tab, form feed,
  carriage return, space, U+0085 (NEL) and U+00A0 (NBSP).
\<close>

definition unicode_IsSpace :: "char \<Rightarrow> bool" where
  "unicode_IsSpace r = (of_char r \<in> {9, 10, 11, 12, 13, 32, 133, 160 :: nat})"

text \<open>
  \<open>bytes.FieldsFunc\<close> scans the text once. \<open>start\<close> is the field being read, if any
  (Go keeps its first index, \<open>-1\<close> for none); a separator closes it, and a field still open
  at the end is the last one.
\<close>

fun FieldsFunc_loop :: "(char \<Rightarrow> bool) \<Rightarrow> string option \<Rightarrow> string \<Rightarrow> string list" where
  "FieldsFunc_loop f start [] = (case start of None \<Rightarrow> [] | Some w \<Rightarrow> [w])"
| "FieldsFunc_loop f start (r # s) =
     (if f r then
        (case start of
           None \<Rightarrow> FieldsFunc_loop f None s
         | Some w \<Rightarrow> w # FieldsFunc_loop f None s)
      else
        (case start of
           None \<Rightarrow> FieldsFunc_loop f (Some [r]) s
         | Some w \<Rightarrow> FieldsFunc_loop f (Some (w @ [r])) s))"

definition FieldsFunc :: "(char \<Rightarrow> bool) \<Rightarrow> string \<Rightarrow> string list" where
  "FieldsFunc f s = FieldsFunc_loop f None s"

definition Fields :: "string \<Rightarrow> string list" where
  "Fields s = FieldsFunc unicode_IsSpace s"

text \<open>
  The specification's reading of "whitespace-delimited fields", to compare with the scan:
  drop the leading separators; if nothing is left there is no field; otherwise the first
  field is the longest separator-free prefix, and the rest is split the same way.
\<close>

function delimited_fields :: "(char \<Rightarrow> bool) \<Rightarrow> string \<Rightarrow> string list" where
  "delimited_fields sp s =
     (case dropWhile sp s of
        [] \<Rightarrow> []
      | c # r \<Rightarrow> takeWhile (Not \<circ> sp) (c # r) # delimited_fields sp (dropWhile (Not \<circ> sp) r))"
  by pat_completeness auto
termination
proof (relation "measure (\<lambda>(sp, s). length s)")
  show "wf (measure (\<lambda>(sp, s). length s))" by simp
next
  fix sp :: "char \<Rightarrow> bool" and s :: string and c :: char and r :: string
  assume eq: "dropWhile sp s = c # r"
  have "length (dropWhile (Not \<circ> sp) r) \<le> length r"
    by (rule length_dropWhile_le)
  also have "length r < length (dropWhile sp s)"
    by (simp add: eq)
  also have "length (dropWhile sp s) \<le> length s"
    by (rule length_dropWhile_le)
  finally show "((sp, dropWhile (Not \<circ> sp) r), (sp, s)) \<in> measure (\<lambda>(sp, s). length s)"
    by simp
qed

declare delimited_fields.simps [simp del]


subsection \<open>net/http, as far as the handlers use it\<close>

record Request =
  Method :: string
  Body :: string

text \<open>
  What a handler has written: the header map, the status code (\<open>None\<close> until
  \<open>WriteHeader\<close> or the first \<open>Write\<close>), and the chunks written to the body.
\<close>

datatype content = Plain string | Json json

record ResponseWriter =
  Header :: "string \<rightharpoonup> string"
  Code :: "nat option"
  Written :: "content list"

definition Header_Set :: "ResponseWriter \<Rightarrow> string \<Rightarrow> string \<Rightarrow> ResponseWriter" where
  "Header_Set w k v = w\<lparr>Header := (Header w)(k \<mapsto> v)\<rparr>"

text \<open>Only the first \<open>WriteHeader\<close> counts; a \<open>Write\<close> before it implies status 200.\<close>

definition WriteHeader :: "ResponseWriter \<Rightarrow> nat \<Rightarrow> ResponseWriter" where
  "WriteHeader w code = (case Code w of None \<Rightarrow> w\<lparr>Code := Some code\<rparr> | Some _ \<Rightarrow> w)"

definition Write :: "ResponseWriter \<Rightarrow> content \<Rightarrow> ResponseWriter" where
  "Write w c = (let w' = WriteHeader w 200 in w'\<lparr>Written := Written w' @ [c]\<rparr>)"

text \<open>
  \<open>http.Error\<close>: plain-text content type, \<open>nosniff\<close>, the status code, then the message and
  a newline as the body.
\<close>

definition http_Error :: "ResponseWriter \<Rightarrow> string \<Rightarrow> nat \<Rightarrow> ResponseWriter" where
  "http_Error w error code =
     (let w1 = Header_Set w ''Content-Type'' ''text/plain; charset=utf-8'';
          w2 = Header_Set w1 ''X-Content-Type-Options'' ''nosniff'';
          w3 = WriteHeader w2 code
      in Write w3 (Plain (error @ [CHR 0x0A])))"

text \<open>The reply of the inference engine: its status code, and what \<open>io.ReadAll\<close> makes of
  its body (\<open>None\<close> when reading fails).\<close>

record Response =
  StatusCode :: nat
  ReadAll :: "string option"

text \<open>
  Everything outside the handler that it calls: the JSON decoders, the serialiser, the
  HTTP client (\<open>Inl\<close> carries the transport error's message) and the clock.
\<close>

record world =
  Decode :: "string \<Rightarrow> CompletionRequest option"
  Marshal :: "json \<Rightarrow> string option"
  Post :: "string \<Rightarrow> string \<Rightarrow> string \<Rightarrow> string + Response"
  Unmarshal :: "string \<Rightarrow> OllamaResponse option"
  Since :: nat

text \<open>What a handler does besides answering: requests to the engine, and log lines.\<close>

datatype event =
    Posted string string string
  | Logged string nat int

type_synonym HandlerFunc = "ResponseWriter \<Rightarrow> Request \<Rightarrow> ResponseWriter \<times> event list"


subsection \<open>The handlers\<close>

definition enableCORS :: "HandlerFunc \<Rightarrow> HandlerFunc" where
  "enableCORS next w r =
     (let w1 = Header_Set w ''Access-Control-Allow-Origin'' ''*'';
          w2 = Header_Set w1 ''Access-Control-Allow-Methods'' ''POST, OPTIONS'';
          w3 = Header_Set w2 ''Access-Control-Allow-Headers'' ''Content-Type''
      in if Method r = ''OPTIONS'' then (WriteHeader w3 200, [])
         else next w3 r)"

definition ollama_url :: string where
  "ollama_url = ''http://localhost:11434/api/generate''"

definition handleCompletion :: "world \<Rightarrow> HandlerFunc" where
  "handleCompletion env w r =
     (if Method r \<noteq> ''POST'' then (http_Error w ''Method not allowed'' 405, [])
      else
        (case Decode env (Body r) of
           None \<Rightarrow> (http_Error w ''Invalid request body'' 400, [])
         | Some req \<Rightarrow>
             (let ollamaReq = \<lparr>OllamaRequest.Model = CompletionRequest.Model req,
                               Prompt = CompletionRequest.Prompt req,
                               Stream = False\<rparr>
              in
                (case Marshal env (OllamaRequest_json ollamaReq) of
                   None \<Rightarrow> (http_Error w ''Failed to build request'' 500, [])
                 | Some ollamaBody \<Rightarrow>
                     (let sent = Posted ollama_url ''application/json'' ollamaBody
                      in
                        (case Post env ollama_url ''application/json'' ollamaBody of
                           Inl err \<Rightarrow> (http_Error w (''Ollama error: '' @ err) 502, [sent])
                         | Inr resp \<Rightarrow>
                             (case ReadAll resp of
                                None \<Rightarrow> (http_Error w ''Failed to read response'' 500, [sent])
                              | Some body \<Rightarrow>
                                  (case Unmarshal env body of
                                     None \<Rightarrow>
                                       (http_Error w ''Failed to parse Ollama response'' 500,
                                        [sent])
                                   | Some ollamaResp \<Rightarrow>
                                       (let elapsed = Since env;
                                            tokens = int (length (Fields (Response ollamaResp)));
                                            response =
                                              \<lparr>Choices = [\<lparr>Text = Response ollamaResp\<rparr>],
                                               Usage = \<lparr>CompletionTokens = tokens\<rparr>\<rparr>;
                                            w1 = Header_Set w ''Content-Type'' ''application/json''
                                        in (Write w1 (Json (CompletionResponse_json response)),
                                            [sent,
                                             Logged (CompletionRequest.Model req) elapsed
                                               tokens]))))))))))"

text \<open>\<open>main\<close> registers \<open>enableCORS(handleCompletion)\<close>; a request meets a fresh writer.\<close>

definition fresh :: ResponseWriter where
  "fresh = \<lparr>Header = Map.empty, Code = None, Written = []\<rparr>"

definition serve :: "world \<Rightarrow> Request \<Rightarrow> ResponseWriter \<times> event list" where
  "serve env r = enableCORS (handleCompletion env) fresh r"

text \<open>The status line the server sends: 200 unless the handler chose one.\<close>

definition status_sent :: "ResponseWriter \<Rightarrow> nat" where
  "status_sent w = (case Code w of None \<Rightarrow> 200 | Some c \<Rightarrow> c)"


section \<open>The client (App.tsx)\<close>

subsection \<open>String operations of the language\<close>

text \<open>
  \<open>String.prototype.trim\<close> strips white space and line terminators from both ends. On the
  Latin-1 range these are tab, line feed, vertical tab, form feed, carriage return, space
  and U+00A0.
\<close>

definition js_WhiteSpace :: "char \<Rightarrow> bool" where
  "js_WhiteSpace c = (of_char c \<in> {9, 10, 11, 12, 13, 32, 160 :: nat})"

definition trim :: "string \<Rightarrow> string" where
  "trim s = rev (dropWhile js_WhiteSpace (rev (dropWhile js_WhiteSpace s)))"

text \<open>
  \<open>s.split(sep)\<close> for a separator of one character: every occurrence of the separator
  ends a piece, and what follows the last occurrence is the last piece.
\<close>

fun js_split_loop :: "char \<Rightarrow> string \<Rightarrow> string \<Rightarrow> string list" where
  "js_split_loop sep piece [] = [piece]"
| "js_split_loop sep piece (c # cs) =
     (if c = sep then piece # js_split_loop sep [] cs
      else js_split_loop sep (piece @ [c]) cs)"

definition js_split :: "char \<Rightarrow> string \<Rightarrow> string list" where
  "js_split sep s = js_split_loop sep [] s"

text \<open>A non-negative integer inside a template literal: its decimal digits.\<close>

fun string_of_nat :: "nat \<Rightarrow> string" where
  "string_of_nat n =
     (if n < 10 then [''0123456789'' ! n]
      else string_of_nat (n div 10) @ [''0123456789'' ! (n mod 10)])"

declare string_of_nat.simps [simp del]


subsection \<open>Values at run time\<close>

text \<open>
  The annotation \<open>const data: ApiResponse\<close> is erased at run time: \<open>response.json()\<close>
  resolves to whatever JSON value the body holds. A value of the language is therefore a
  JSON value or \<open>undefined\<close> (\<open>None\<close>).
\<close>

type_synonym jsvalue = "json option"

datatype Exception = FetchRejected | JsonRejected | TypeError


text \<open>
  The property \<open>k\<close> of a value that is not nullish, for the names read by the code
  (\<open>choices\<close>, \<open>text\<close>, \<open>usage\<close>, \<open>completion_tokens\<close>), which no built-in prototype
  defines: an object has it if the parsed text names it (the last occurrence counts), and
  strings, numbers, booleans and arrays do not have it.
\<close>

fun own :: "json \<Rightarrow> string \<Rightarrow> jsvalue" where
  "own (JObj kvs) k = map_of (rev kvs) k"
| "own v k = None"

text \<open>\<open>v.k\<close>: reading a property of \<open>null\<close> or \<open>undefined\<close> throws a \<open>TypeError\<close>.\<close>

fun get_prop :: "jsvalue \<Rightarrow> string \<Rightarrow> Exception + jsvalue" where
  "get_prop None k = Inl TypeError"
| "get_prop (Some JNull) k = Inl TypeError"
| "get_prop (Some v) k = Inr (own v k)"

text \<open>\<open>v?.k\<close>: \<open>undefined\<close> when \<open>v\<close> is nullish.\<close>

fun optional_prop :: "jsvalue \<Rightarrow> string \<Rightarrow> jsvalue" where
  "optional_prop None k = None"
| "optional_prop (Some JNull) k = None"
| "optional_prop (Some v) k = own v k"

text \<open>
  \<open>v[0]\<close>: the first element of an array, the first character of a string, the property
  \<open>0\<close> of an object, each \<open>undefined\<close> when missing; \<open>undefined\<close> for a number or a
  boolean; a \<open>TypeError\<close> for \<open>null\<close> and \<open>undefined\<close>.
\<close>

fun index0 :: "jsvalue \<Rightarrow> Exception + jsvalue" where
  "index0 None = Inl TypeError"
| "index0 (Some JNull) = Inl TypeError"
| "index0 (Some (JArr xs)) = Inr (case xs of [] \<Rightarrow> None | x # _ \<Rightarrow> Some x)"
| "index0 (Some (JStr s)) = Inr (case s of [] \<Rightarrow> None | c # _ \<Rightarrow> Some (JStr [c]))"
| "index0 (Some (JObj kvs)) = Inr (map_of (rev kvs) ''0'')"
| "index0 (Some v) = Inr None"

text \<open>
  \<open>v.split(" ").length\<close>: only a string has a \<open>split\<close> method; on \<open>undefined\<close> and
  \<open>null\<close> the property read throws, and on any other value \<open>v.split\<close> is not a function
  and the call throws.
\<close>

fun split_length :: "jsvalue \<Rightarrow> Exception + json" where
  "split_length (Some (JStr s)) = Inr (JNum (real (length (js_split CHR '' '' s))))"
| "split_length v = Inl TypeError"

text \<open>
  The result of an arithmetic operation: a number or \<open>NaN\<close>. Division is used only with a
  divisor that is not 0.
\<close>

datatype number = Num real | NaN

fun add :: "number \<Rightarrow> number \<Rightarrow> number" where
  "add (Num x) (Num y) = Num (x + y)"
| "add a b = NaN"

fun divide_by :: "number \<Rightarrow> real \<Rightarrow> number" where
  "divide_by (Num x) d = Num (x / d)"
| "divide_by NaN d = NaN"


subsection \<open>The interfaces\<close>

text \<open>
  The fields hold what the code stores in them: \<open>content\<close> and \<open>tokens\<close> come from the
  parsed body and can be any value.
\<close>

datatype Role = User | Assistant

record Metrics =
  latency :: real
  tokens :: json
  tokensPerSecond :: number

record Message =
  role :: Role
  content :: jsvalue
  metrics :: "Metrics option"

text \<open>The component's state variables (\<open>useState\<close>).\<close>

record App =
  messages :: "Message list"
  input :: string
  model :: string
  maxTokens :: nat
  isLoading :: bool


subsection \<open>The browser, as far as handleSend uses it\<close>

record FetchCall =
  url :: string
  http_method :: string
  headers :: "(string \<times> string) list"
  body :: json

text \<open>
  A response: its status, and what \<open>response.json()\<close> resolves to (\<open>None\<close> when the body
  is not JSON and the promise rejects).
\<close>

record FetchResponse =
  status :: nat
  json :: "json option"

definition ok :: "FetchResponse \<Rightarrow> bool" where
  "ok response = (200 \<le> status response \<and> status response \<le> 299)"

text \<open>
  \<open>fetch\<close> resolves to a response or rejects (\<open>None\<close>: no connection). \<open>now_before\<close> and
  \<open>now_after\<close> are the two readings of \<open>performance.now()\<close>, in milliseconds. \<open>ToNumber\<close>
  and \<open>Plus\<close> are the language's conversion of a value that is not a number to a number,
  and its \<open>+\<close> on operands that are not both numbers (string concatenation included);
  they are left open.
\<close>

record Browser =
  fetch :: "FetchCall \<Rightarrow> FetchResponse option"
  now_before :: real
  now_after :: real
  ToNumber :: "json \<Rightarrow> number"
  Plus :: "json \<Rightarrow> json \<Rightarrow> json"

fun to_number :: "Browser \<Rightarrow> json \<Rightarrow> number" where
  "to_number br (JNum x) = Num x"
| "to_number br v = ToNumber br v"

fun plus_js :: "Browser \<Rightarrow> json \<Rightarrow> json \<Rightarrow> json" where
  "plus_js br (JNum x) (JNum y) = JNum (x + y)"
| "plus_js br a b = Plus br a b"


subsection \<open>Session metrics\<close>

definition sessionMetrics :: "Message list \<Rightarrow> Metrics list" where
  "sessionMetrics ms = map (\<lambda>m. the (metrics m)) (filter (\<lambda>m. metrics m \<noteq> None) ms)"

definition avgLatency :: "Message list \<Rightarrow> real" where
  "avgLatency ms =
     (if length (sessionMetrics ms) > 0
      then foldl (\<lambda>sum m. sum + latency m) 0 (sessionMetrics ms) /
           real (length (sessionMetrics ms))
      else 0)"

definition avgThroughput :: "Message list \<Rightarrow> number" where
  "avgThroughput ms =
     (if length (sessionMetrics ms) > 0
      then divide_by (foldl (\<lambda>sum m. add sum (tokensPerSecond m)) (Num 0) (sessionMetrics ms))
             (real (length (sessionMetrics ms)))
      else Num 0)"

definition totalTokens :: "Browser \<Rightarrow> Message list \<Rightarrow> json" where
  "totalTokens br ms = foldl (\<lambda>sum m. plus_js br sum (tokens m)) (JNum 0) (sessionMetrics ms)"

text \<open>The "Requests" figure is \<open>sessionMetrics.length\<close>.\<close>

definition requestCount :: "Message list \<Rightarrow> nat" where
  "requestCount ms = length (sessionMetrics ms)"


subsection \<open>handleSend and clearChat\<close>

definition BACKEND_URL :: string where
  "BACKEND_URL = ''http://localhost:8000''"

text \<open>The arguments of the \<open>fetch\<close> call, built from the state the handler closed over.\<close>

definition completion_call :: "App \<Rightarrow> FetchCall" where
  "completion_call s =
     \<lparr>url = BACKEND_URL @ ''/v1/completions'',
      http_method = ''POST'',
      headers = [(''Content-Type'', ''application/json'')],
      body = JObj [(''model'', JStr (model s)),
                   (''prompt'', JStr (input s)),
                   (''max_tokens'', JNum (real (maxTokens s)))]\<rparr>"

text \<open>Line 107, \<open>data.choices[0].text\<close>: three reads, each of which can throw.\<close>

definition choices_0_text :: "json \<Rightarrow> Exception + jsvalue" where
  "choices_0_text data =
     (case get_prop (Some data) ''choices'' of
        Inl e \<Rightarrow> Inl e
      | Inr cs \<Rightarrow>
          (case index0 cs of
             Inl e \<Rightarrow> Inl e
           | Inr first \<Rightarrow> get_prop first ''text''))"

text \<open>Line 110, left operand: \<open>data.usage?.completion_tokens\<close>.\<close>

definition usage_completion_tokens :: "json \<Rightarrow> Exception + jsvalue" where
  "usage_completion_tokens data =
     (case get_prop (Some data) ''usage'' of
        Inl e \<Rightarrow> Inl e
      | Inr u \<Rightarrow> Inr (optional_prop u ''completion_tokens''))"

text \<open>
  Line 110, \<open>reported ?? text.split(" ").length\<close>: the right operand is evaluated only
  when the left one is nullish.
\<close>

fun coalesce_tokens :: "jsvalue \<Rightarrow> jsvalue \<Rightarrow> Exception + json" where
  "coalesce_tokens None txt = split_length txt"
| "coalesce_tokens (Some JNull) txt = split_length txt"
| "coalesce_tokens (Some v) txt = Inr v"

text \<open>Lines 107 to 118: from the parsed body to the assistant message.\<close>

definition assistant_reply :: "Browser \<Rightarrow> real \<Rightarrow> json \<Rightarrow> Exception + Message" where
  "assistant_reply br lat data =
     (case choices_0_text data of
        Inl e \<Rightarrow> Inl e
      | Inr txt \<Rightarrow>
          (case usage_completion_tokens data of
             Inl e \<Rightarrow> Inl e
           | Inr reported \<Rightarrow>
               (case coalesce_tokens reported txt of
                  Inl e \<Rightarrow> Inl e
                | Inr toks \<Rightarrow>
                    (let tps = (if lat > 0 then divide_by (to_number br toks) lat else Num 0)
                     in Inr \<lparr>role = Assistant, content = txt,
                             metrics = Some \<lparr>latency = lat, tokens = toks,
                                              tokensPerSecond = tps\<rparr>\<rparr>))))"

text \<open>
  The body of the \<open>try\<close> block: the assistant message it appends, or the exception that
  leaves it.
\<close>

definition handleSend_try :: "Browser \<Rightarrow> FetchCall \<Rightarrow> Exception + Message" where
  "handleSend_try br call =
     (case fetch br call of
        None \<Rightarrow> Inl FetchRejected
      | Some response \<Rightarrow>
          (let lat = (now_after br - now_before br) / 1000
           in if ok response then
                (case json response of
                   None \<Rightarrow> Inl JsonRejected
                 | Some data \<Rightarrow> assistant_reply br lat data)
              else
                Inr \<lparr>role = Assistant,
                     content = Some (JStr (''Error: API returned '' @
                                           string_of_nat (status response))),
                     metrics = None\<rparr>))"

text \<open>
  One run of \<open>handleSend\<close> from the state \<open>s\<close>, with no other event in between: the state
  after the \<open>finally\<close> block, and the requests issued. Every exception of the \<open>try\<close> block
  is caught by the one \<open>catch\<close> block, and nothing outside the block can throw, so the run
  always ends in a state.
\<close>

definition handleSend :: "Browser \<Rightarrow> App \<Rightarrow> App \<times> FetchCall list" where
  "handleSend br s =
     (if trim (input s) = [] \<or> isLoading s then (s, [])
      else
        (let userMessage = \<lparr>role = User, content = Some (JStr (input s)), metrics = None\<rparr>;
             s1 = s\<lparr>messages := messages s @ [userMessage]\<rparr>;
             s2 = s1\<lparr>input := []\<rparr>;
             s3 = s2\<lparr>isLoading := True\<rparr>;
             s4 = (case handleSend_try br (completion_call s) of
                     Inr assistantMessage \<Rightarrow>
                       s3\<lparr>messages := messages s3 @ [assistantMessage]\<rparr>
                   | Inl err \<Rightarrow>
                       s3\<lparr>messages := messages s3 @
                            [\<lparr>role = Assistant,
                              content = Some (JStr ''Error: Could not connect to backend''),
                              metrics = None\<rparr>]\<rparr>)
         in (s4\<lparr>isLoading := False\<rparr>, [completion_call s])))"

definition clearChat :: "App \<Rightarrow> App" where
  "clearChat s = s\<lparr>messages := []\<rparr>"


section \<open>Observations and concrete exchanges\<close>

text \<open>The requests to the inference engine among a handler's events, in order.\<close>

fun posts :: "event list \<Rightarrow> (string \<times> string \<times> string) list" where
  "posts [] = []"
| "posts (Posted u c b # es) = (u, c, b) # posts es"
| "posts (Logged m d n # es) = posts es"

text \<open>
  The scenario of the specification: the client asks \<open>llama3.2\<close> for a completion of
  \<open>hello\<close>, and the engine answers \<open>hi there\<close> with status \<open>st\<close>. The byte strings stand for
  the JSON texts on the wire.
\<close>

definition hello_request :: Request where
  "hello_request =
     \<lparr>Method = ''POST'', Body = ''{model:llama3.2,prompt:hello,max_tokens:150}''\<rparr>"

definition scenario_world :: "nat \<Rightarrow> world" where
  "scenario_world st =
     \<lparr>Decode = (\<lambda>b. if b = ''{model:llama3.2,prompt:hello,max_tokens:150}''
                     then Some \<lparr>CompletionRequest.Model = ''llama3.2'', Prompt = ''hello'',
                                 MaxTokens = 150\<rparr>
                     else None),
      Marshal = (\<lambda>j. if j = JObj [(''model'', JStr ''llama3.2''), (''prompt'', JStr ''hello''),
                                   (''stream'', JBool False)]
                      then Some ''{model:llama3.2,prompt:hello,stream:false}'' else None),
      Post = (\<lambda>u c b. if u = ''http://localhost:11434/api/generate''
                        then Inr \<lparr>StatusCode = st,
                                  ReadAll = Some ''{response:hi there,done:true}''\<rparr>
                        else Inl ''connection refused''),
      Unmarshal = (\<lambda>b. if b = ''{response:hi there,done:true}''
                        then Some \<lparr>OllamaResponse.Model = [], Response = ''hi there'',
                                    Done = True, TotalDuration = 0, EvalCount = 0\<rparr>
                        else None),
      Since = 0\<rparr>"


definition options_request :: Request where
  "options_request = \<lparr>Method = ''OPTIONS'', Body = []\<rparr>"

definition get_request :: Request where
  "get_request = \<lparr>Method = ''GET'', Body = []\<rparr>"

text \<open>The headers that \<open>enableCORS\<close> sets on a fresh writer.\<close>

definition cors :: "string \<rightharpoonup> string" where
  "cors = [''Access-Control-Allow-Origin'' \<mapsto> ''*'',
           ''Access-Control-Allow-Methods'' \<mapsto> ''POST, OPTIONS'',
           ''Access-Control-Allow-Headers'' \<mapsto> ''Content-Type'']"

text \<open>
  On the client: the user has typed \<open>hello\<close>, or only blanks; the browser answers every
  \<open>fetch\<close> with the same reply (or none) and reads the clock as \<open>t0\<close>, then \<open>t1\<close>. Every
  token count in the exchanges below is a number, so the conversions are never reached;
  they are set to constants.
\<close>

definition hello_app :: App where
  "hello_app = \<lparr>messages = [], input = ''hello'', model = ''llama3.2'', maxTokens = 150,
                 isLoading = False\<rparr>"

definition blank_app :: App where
  "blank_app = \<lparr>messages = [], input = [CHR '' '', CHR 0x09, CHR 0x0A, CHR '' ''],
                 model = ''llama3.2'', maxTokens = 150, isLoading = False\<rparr>"

definition replying :: "FetchResponse option \<Rightarrow> real \<Rightarrow> real \<Rightarrow> Browser" where
  "replying reply t0 t1 =
     \<lparr>fetch = (\<lambda>call. reply), now_before = t0, now_after = t1,
      ToNumber = (\<lambda>v. NaN), Plus = (\<lambda>a b. JNull)\<rparr>"

text \<open>A 200 response with the body \<open>j\<close>, and some bodies.\<close>

definition ok_200 :: "json \<Rightarrow> FetchResponse" where
  "ok_200 j = \<lparr>status = 200, json = Some j\<rparr>"

definition completion_of :: "string \<Rightarrow> json" where
  "completion_of t = JObj [(''choices'', JArr [JObj [(''text'', JStr t)]])]"


definition no_choices :: json where
  "no_choices = JObj [(''choices'', JArr [])]"

definition null_choice :: json where
  "null_choice = JObj [(''choices'', JArr [JNull])]"





text \<open>
  What \<open>data.usage?.completion_tokens\<close> evaluates to for a body that is not \<open>null\<close>:
  the reported count, or \<open>undefined\<close> when the usage block is missing, is \<open>null\<close> or has
  no such member.
\<close>

definition reported :: "json \<Rightarrow> jsvalue" where
  "reported data = optional_prop (own data ''usage'') ''completion_tokens''"


section \<open>The scan computes the delimited fields\<close>

lemma FieldsFunc_loop_skip:
  "FieldsFunc_loop f None s = FieldsFunc_loop f None (dropWhile f s)"
  by (induction s) simp_all

lemma FieldsFunc_loop_open:
  "FieldsFunc_loop f (Some w) s =
     (w @ takeWhile (Not \<circ> f) s) # FieldsFunc_loop f None (dropWhile (Not \<circ> f) s)"
  by (induction s arbitrary: w) simp_all

lemma delimited_fields_Nil: "dropWhile sp s = [] \<Longrightarrow> delimited_fields sp s = []"
  by (subst delimited_fields.simps) (simp only: list.case)

lemma delimited_fields_Cons:
  "dropWhile sp s = c # r \<Longrightarrow>
   delimited_fields sp s =
     (c # takeWhile (Not \<circ> sp) r) # delimited_fields sp (dropWhile (Not \<circ> sp) r)"
proof -
  assume eq: "dropWhile sp s = c # r"
  have "\<not> sp (hd (dropWhile sp s))"
    by (rule hd_dropWhile) (simp add: eq)
  then have nsp: "\<not> sp c"
    by (simp add: eq)
  have "delimited_fields sp s =
          takeWhile (Not \<circ> sp) (c # r) # delimited_fields sp (dropWhile (Not \<circ> sp) r)"
    by (subst delimited_fields.simps) (simp only: eq list.case)
  then show ?thesis
    using nsp by simp
qed

lemma FieldsFunc_loop_delimited: "FieldsFunc_loop f None s = delimited_fields f s"
proof (induction f s rule: delimited_fields.induct)
  case (1 sp s)
  show ?case
  proof (cases "dropWhile sp s")
    case Nil
    have "FieldsFunc_loop sp None s = FieldsFunc_loop sp None (dropWhile sp s)"
      by (rule FieldsFunc_loop_skip)
    then show ?thesis
      by (simp add: Nil delimited_fields_Nil [OF Nil])
  next
    case (Cons c r)
    have "\<not> sp (hd (dropWhile sp s))"
      by (rule hd_dropWhile) (simp add: Cons)
    then have nsp: "\<not> sp c"
      by (simp add: Cons)
    have "FieldsFunc_loop sp None s = FieldsFunc_loop sp None (dropWhile sp s)"
      by (rule FieldsFunc_loop_skip)
    also have "\<dots> = FieldsFunc_loop sp (Some [c]) r"
      using nsp by (simp add: Cons)
    also have "\<dots> = ([c] @ takeWhile (Not \<circ> sp) r) #
                        FieldsFunc_loop sp None (dropWhile (Not \<circ> sp) r)"
      by (rule FieldsFunc_loop_open)
    also have "FieldsFunc_loop sp None (dropWhile (Not \<circ> sp) r) =
               delimited_fields sp (dropWhile (Not \<circ> sp) r)"
      by (rule "1.IH" [OF Cons])
    finally show ?thesis
      by (simp add: delimited_fields_Cons [OF Cons] comp_def)
  qed
qed

lemma Fields_delimited: "Fields s = delimited_fields unicode_IsSpace s"
  by (simp add: Fields_def FieldsFunc_def FieldsFunc_loop_delimited)

lemma two_fields: "length (delimited_fields unicode_IsSpace ''hi there'') = 2"
  by (simp add: Fields_delimited [symmetric] Fields_def FieldsFunc_def unicode_IsSpace_def)


section \<open>The proxy's translation\<close>

lemmas writer_defs = Header_Set_def WriteHeader_def Write_def http_Error_def fresh_def

text \<open>
  Claim C1. When the body of a POST request decodes as a CompletionRequest, the request to
  the engine is answered, and the answer's body decodes as an OllamaResponse, the proxy
  replies with status 200 and one JSON value: the object whose \<open>choices\<close> is an array of
  exactly one object with \<open>text\<close> the engine's response text, and whose
  \<open>usage.completion_tokens\<close> is the number of whitespace-delimited fields of that text.
  In the scenario the text \<open>hi there\<close> gives 2.
\<close>

theorem proxy_completion_response:
  assumes "Method r = ''POST''"
      and "Decode env (Body r) = Some req"
      and "Marshal env (OllamaRequest_json
             \<lparr>OllamaRequest.Model = CompletionRequest.Model req,
              Prompt = CompletionRequest.Prompt req,
              Stream = False\<rparr>) = Some ollamaBody"
      and "Post env ollama_url ''application/json'' ollamaBody = Inr resp"
      and "ReadAll resp = Some raw"
      and "Unmarshal env raw = Some up"
  shows "status_sent (fst (serve env r)) = 200 \<and>
         Written (fst (serve env r)) =
           [Json (JObj
              [(''choices'', JArr [JObj [(''text'', JStr (Response up))]]),
               (''usage'', JObj [(''completion_tokens'',
                  JNum (real (length (delimited_fields unicode_IsSpace (Response up)))))])])]"
  using assms
  by (simp add: serve_def enableCORS_def handleCompletion_def writer_defs status_sent_def
       CompletionResponse_json_def Choice_json_def Usage_json_def Fields_delimited Let_def)

theorem proxy_completion_response_witness:
  "Method hello_request = ''POST'' \<and>
   status_sent (fst (serve (scenario_world 200) hello_request)) = 200 \<and>
   Written (fst (serve (scenario_world 200) hello_request)) =
     [Json (JObj [(''choices'', JArr [JObj [(''text'', JStr ''hi there'')]]),
                  (''usage'', JObj [(''completion_tokens'', JNum 2)])])]"
  using proxy_completion_response [of hello_request "scenario_world 200"
      "\<lparr>CompletionRequest.Model = ''llama3.2'', Prompt = ''hello'', MaxTokens = 150\<rparr>"
      "''{model:llama3.2,prompt:hello,stream:false}''"
      "\<lparr>StatusCode = 200, ReadAll = Some ''{response:hi there,done:true}''\<rparr>"
      "''{response:hi there,done:true}''"
      "\<lparr>OllamaResponse.Model = [], Response = ''hi there'', Done = True,
        TotalDuration = 0, EvalCount = 0\<rparr>"]
  by (simp add: hello_request_def scenario_world_def OllamaRequest_json_def ollama_url_def
       two_fields)

text \<open>
  Claim C4. For every decoded CompletionRequest the proxy serialises exactly one value, the
  OllamaRequest with \<open>model\<close> and \<open>prompt\<close> copied from the request and \<open>stream\<close> false,
  and posts what the serialiser returns (nothing when it fails). The object has the members
  \<open>model\<close>, \<open>prompt\<close> and \<open>stream\<close> and no member \<open>max_tokens\<close>: the client's
  \<open>MaxTokens\<close> is decoded and then unused.
\<close>

theorem upstream_request_shape:
  assumes "Method r = ''POST''"
      and "Decode env (Body r) = Some req"
      and "q = \<lparr>OllamaRequest.Model = CompletionRequest.Model req,
                Prompt = CompletionRequest.Prompt req,
                Stream = False\<rparr>"
  shows "posts (snd (serve env r)) =
           (case Marshal env (OllamaRequest_json q) of
              None \<Rightarrow> []
            | Some ollamaBody \<Rightarrow> [(ollama_url, ''application/json'', ollamaBody)]) \<and>
         OllamaRequest_json q =
           JObj [(''model'', JStr (CompletionRequest.Model req)),
                 (''prompt'', JStr (CompletionRequest.Prompt req)),
                 (''stream'', JBool False)] \<and>
         ''max_tokens'' \<notin> set (keys (OllamaRequest_json q))"
  using assms
  by (simp add: serve_def enableCORS_def handleCompletion_def OllamaRequest_json_def Let_def
           split: option.split sum.split)

theorem upstream_request_shape_witness:
  "Method hello_request = ''POST'' \<and>
   posts (snd (serve (scenario_world 200) hello_request)) =
     [(''http://localhost:11434/api/generate'', ''application/json'',
       ''{model:llama3.2,prompt:hello,stream:false}'')]"
  using upstream_request_shape [of hello_request "scenario_world 200"
      "\<lparr>CompletionRequest.Model = ''llama3.2'', Prompt = ''hello'', MaxTokens = 150\<rparr>"
      "\<lparr>OllamaRequest.Model = ''llama3.2'', Prompt = ''hello'', Stream = False\<rparr>"]
  by (simp add: hello_request_def scenario_world_def ollama_url_def OllamaRequest_json_def)

text \<open>
  Claim C10. The status code of the engine's reply is never read: whatever it is, a reply
  whose body is read and decodes as an OllamaResponse is answered with status 200 and the
  CompletionResponse built from that body.
\<close>

theorem upstream_status_ignored:
  assumes "Method r = ''POST''"
      and "Decode env (Body r) = Some req"
      and "Marshal env (OllamaRequest_json
             \<lparr>OllamaRequest.Model = CompletionRequest.Model req,
              Prompt = CompletionRequest.Prompt req,
              Stream = False\<rparr>) = Some ollamaBody"
      and "Post env ollama_url ''application/json'' ollamaBody =
             Inr \<lparr>StatusCode = st, ReadAll = Some raw\<rparr>"
      and "Unmarshal env raw = Some up"
  shows "status_sent (fst (serve env r)) = 200 \<and>
         Written (fst (serve env r)) =
           [Json (CompletionResponse_json
              \<lparr>Choices = [\<lparr>Text = Response up\<rparr>],
               Usage = \<lparr>CompletionTokens = int (length (Fields (Response up)))\<rparr>\<rparr>)]"
  using assms
  by (simp add: serve_def enableCORS_def handleCompletion_def writer_defs status_sent_def
       Let_def)

theorem upstream_status_ignored_witness:
  "status_sent (fst (serve (scenario_world 500) hello_request)) = 200 \<and>
   Written (fst (serve (scenario_world 500) hello_request)) =
     [Json (CompletionResponse_json
        \<lparr>Choices = [\<lparr>Text = ''hi there''\<rparr>], Usage = \<lparr>CompletionTokens = 2\<rparr>\<rparr>)]"
  using upstream_status_ignored [of hello_request "scenario_world 500"
      "\<lparr>CompletionRequest.Model = ''llama3.2'', Prompt = ''hello'', MaxTokens = 150\<rparr>"
      "''{model:llama3.2,prompt:hello,stream:false}''" 500
      "''{response:hi there,done:true}''"
      "\<lparr>OllamaResponse.Model = [], Response = ''hi there'', Done = True,
        TotalDuration = 0, EvalCount = 0\<rparr>"]
  by (simp add: hello_request_def scenario_world_def OllamaRequest_json_def ollama_url_def
       Fields_def FieldsFunc_def unicode_IsSpace_def)


section \<open>Methods and CORS\<close>

lemma serve_cors:
  "Header (fst (serve env r)) ''Access-Control-Allow-Origin'' = Some ''*'' \<and>
   Header (fst (serve env r)) ''Access-Control-Allow-Methods'' = Some ''POST, OPTIONS'' \<and>
   Header (fst (serve env r)) ''Access-Control-Allow-Headers'' = Some ''Content-Type''"
  by (simp add: serve_def enableCORS_def handleCompletion_def writer_defs Let_def
           split: option.split sum.split)

text \<open>
  Claim C6. An OPTIONS request is answered with status 200, no body and the CORS headers,
  whatever handler is wrapped (it is not called, and nothing is posted or logged). A request
  whose method is neither OPTIONS nor POST is answered with 405; nothing is posted or
  logged, and the reply is the same in every world, so nothing was decoded or translated.
  Every reply of the endpoint carries the three CORS headers.
\<close>

theorem preflight_method_cors:
  assumes "Method ro = ''OPTIONS''"
      and "Method rg \<noteq> ''OPTIONS''" and "Method rg \<noteq> ''POST''"
  shows "enableCORS next fresh ro = (\<lparr>Header = cors, Code = Some 200, Written = []\<rparr>, []) \<and>
         status_sent (fst (serve env rg)) = 405 \<and>
         snd (serve env rg) = [] \<and>
         serve env rg = serve env' rg \<and>
         Header (fst (serve env r)) ''Access-Control-Allow-Origin'' = Some ''*'' \<and>
         Header (fst (serve env r)) ''Access-Control-Allow-Methods'' = Some ''POST, OPTIONS'' \<and>
         Header (fst (serve env r)) ''Access-Control-Allow-Headers'' = Some ''Content-Type''"
proof -
  have a: "enableCORS next fresh ro = (\<lparr>Header = cors, Code = Some 200, Written = []\<rparr>, [])"
    using assms(1) by (simp add: enableCORS_def writer_defs cors_def)
  have b: "serve e rg = serve e' rg" for e e'
    using assms(2,3) by (simp add: serve_def enableCORS_def handleCompletion_def Let_def)
  have c: "status_sent (fst (serve env rg)) = 405 \<and> snd (serve env rg) = []"
    using assms(2,3)
    by (simp add: serve_def enableCORS_def handleCompletion_def writer_defs status_sent_def
         Let_def)
  show ?thesis
    using a c b [of env env'] serve_cors [of env r] by simp
qed

theorem preflight_method_cors_witness:
  "Method options_request = ''OPTIONS'' \<and>
   Method get_request \<noteq> ''OPTIONS'' \<and> Method get_request \<noteq> ''POST'' \<and>
   serve (scenario_world 200) options_request =
     (\<lparr>Header = cors, Code = Some 200, Written = []\<rparr>, []) \<and>
   status_sent (fst (serve (scenario_world 200) get_request)) = 405 \<and>
   snd (serve (scenario_world 200) get_request) = [] \<and>
   Header (fst (serve (scenario_world 200) hello_request)) ''Access-Control-Allow-Origin'' = Some ''*''"
  using preflight_method_cors [of options_request get_request
      "handleCompletion (scenario_world 200)" "scenario_world 200" "scenario_world 200" hello_request]
  by (simp add: options_request_def get_request_def serve_def)

section \<open>The client's exchange\<close>

subsection \<open>Reading the parsed body\<close>



lemma trim_blank:
  assumes "\<forall>c\<in>set s. js_WhiteSpace c"
  shows "trim s = []"
proof -
  have blank: "dropWhile js_WhiteSpace s = []"
    using assms by simp
  show ?thesis
    unfolding trim_def blank by simp
qed

lemma handleSend_busy_or_blank:
  "trim (input s) = [] \<or> isLoading s \<Longrightarrow> handleSend br s = (s, [])"
  by (simp add: handleSend_def)

lemma get_prop_value: "v \<noteq> JNull \<Longrightarrow> get_prop (Some v) k = Inr (own v k)"
  by (cases v) simp_all

lemma optional_prop_value: "v \<noteq> JNull \<Longrightarrow> optional_prop (Some v) k = own v k"
  by (cases v) simp_all











lemma assistant_reply_raise:
  "choices_0_text data = Inl e \<Longrightarrow> assistant_reply br lat data = Inl e"
  by (simp add: assistant_reply_def)







subsection \<open>The try block and the handler\<close>




lemma handleSend_try_parsed:
  "fetch br call = Some resp \<Longrightarrow> ok resp \<Longrightarrow> json resp = Some data \<Longrightarrow>
   handleSend_try br call = assistant_reply br ((now_after br - now_before br) / 1000) data"
  by (simp add: handleSend_try_def Let_def)




lemma handleSend_caught:
  assumes "trim (input s) \<noteq> []" and "\<not> isLoading s"
      and "handleSend_try br (completion_call s) = Inl e"
  shows "handleSend br s =
           (s\<lparr>messages := messages s @
                 [\<lparr>role = User, content = Some (JStr (input s)), metrics = None\<rparr>,
                  \<lparr>role = Assistant,
                    content = Some (JStr ''Error: Could not connect to backend''),
                    metrics = None\<rparr>],
               input := [], isLoading := False\<rparr>,
            [completion_call s])"
  using assms by (simp add: handleSend_def Let_def)

lemma handleSend_appended:
  assumes "trim (input s) \<noteq> []" and "\<not> isLoading s"
      and "handleSend_try br (completion_call s) = Inr m"
  shows "handleSend br s =
           (s\<lparr>messages := messages s @
                 [\<lparr>role = User, content = Some (JStr (input s)), metrics = None\<rparr>, m],
               input := [], isLoading := False\<rparr>,
            [completion_call s])"
  using assms by (simp add: handleSend_def Let_def)



lemma hello_sendable: "trim (input hello_app) \<noteq> []" "\<not> isLoading hello_app"
  by (simp_all add: hello_app_def trim_def js_WhiteSpace_def)

lemma ok_200_reply: "ok (ok_200 j)" "json (ok_200 j) = Some j"
  by (simp_all add: ok_200_def ok_def)

lemma fetch_replying: "fetch (replying reply t0 t1) call = reply"
  by (simp add: replying_def)


subsection \<open>Blank input\<close>

text \<open>
  Claim C7. When the input is empty or consists of white space only, \<open>handleSend\<close> leaves
  the state as it is (no message is appended) and issues no request.
\<close>

theorem blank_send_noop:
  assumes "\<forall>c\<in>set (input s). js_WhiteSpace c"
  shows "handleSend br s = (s, [])"
  using assms by (simp add: handleSend_busy_or_blank trim_blank)

theorem blank_send_noop_witness:
  "input blank_app = [CHR '' '', CHR 0x09, CHR 0x0A, CHR '' ''] \<and>
   handleSend (replying (Some (ok_200 (completion_of ''hi there''))) 0 500) blank_app =
     (blank_app, [])"
proof -
  have a: "\<forall>c\<in>set (input blank_app). js_WhiteSpace c"
    by (simp add: blank_app_def js_WhiteSpace_def)
  have b: "input blank_app = [CHR '' '', CHR 0x09, CHR 0x0A, CHR '' '']"
    by (simp add: blank_app_def)
  from b blank_send_noop [OF a] show ?thesis
    by (rule conjI)
qed


subsection \<open>A body without a usable first choice\<close>

text \<open>
  Claim C8, as the specification states it, fails twice. A \<open>choices\<close> array whose first
  element is \<open>null\<close> is not empty, and the extraction \<open>data.choices[0].text\<close> throws on it.
  And the \<open>TypeError\<close> of an empty array does not leave \<open>handleSend\<close>: the \<open>catch\<close> block
  handles it, and the run ends in the state shown.
\<close>

theorem empty_choices_counterexample:
  "choices_0_text null_choice = Inl TypeError \<and>
   handleSend (replying (Some (ok_200 no_choices)) 0 500) hello_app =
     (\<lparr>messages =
         [\<lparr>role = User, content = Some (JStr ''hello''), metrics = None\<rparr>,
          \<lparr>role = Assistant, content = Some (JStr ''Error: Could not connect to backend''),
            metrics = None\<rparr>],
       input = [], model = ''llama3.2'', maxTokens = 150, isLoading = False\<rparr>,
      [completion_call hello_app])"
proof -
  have a: "choices_0_text null_choice = Inl TypeError"
    by (simp add: choices_0_text_def null_choice_def)
  have "choices_0_text no_choices = Inl TypeError"
    by (simp add: choices_0_text_def no_choices_def)
  then have "handleSend_try (replying (Some (ok_200 no_choices)) 0 500)
               (completion_call hello_app) = Inl TypeError"
    by (simp add: handleSend_try_parsed [OF fetch_replying ok_200_reply] assistant_reply_raise)
  from handleSend_caught [OF hello_sendable this] a show ?thesis
    by (simp add: hello_app_def)
qed

text \<open>
  Claim C8, amended. For a 2xx response whose parsed body has an empty \<open>choices\<close> array,
  the extraction \<open>data.choices[0].text\<close> throws a \<open>TypeError\<close>, which the \<open>catch\<close> block
  of \<open>handleSend\<close> handles: the run ends with the user message and the assistant message
  \<open>Error: Could not connect to backend\<close> (no metrics) appended, the input cleared and the
  loading flag reset. When \<open>choices\<close> is a non-empty array whose first element is not
  \<open>null\<close>, the extraction does not throw: it yields that element's \<open>text\<close>, or
  \<open>undefined\<close>.
\<close>

theorem empty_choices_caught:
  assumes "trim (input s) \<noteq> []" and "\<not> isLoading s"
      and "fetch br (completion_call s) = Some resp" and "ok resp"
      and "json resp = Some data" and "own data ''choices'' = Some (JArr xs)"
  shows "(xs = [] \<longrightarrow>
            choices_0_text data = Inl TypeError \<and>
            handleSend br s =
              (s\<lparr>messages := messages s @
                    [\<lparr>role = User, content = Some (JStr (input s)), metrics = None\<rparr>,
                     \<lparr>role = Assistant,
                       content = Some (JStr ''Error: Could not connect to backend''),
                       metrics = None\<rparr>],
                  input := [], isLoading := False\<rparr>,
               [completion_call s])) \<and>
         (\<forall>x rest. xs = x # rest \<and> x \<noteq> JNull \<longrightarrow>
            choices_0_text data = Inr (own x ''text''))"
proof -
  have "data \<noteq> JNull"
    using assms(6) by auto
  then have read: "get_prop (Some data) ''choices'' = Inr (Some (JArr xs))"
    using assms(6) by (simp add: get_prop_value)
  have empty: "choices_0_text data = Inl TypeError" if "xs = []"
    using that read by (simp add: choices_0_text_def)
  have caught: "handleSend br s =
              (s\<lparr>messages := messages s @
                    [\<lparr>role = User, content = Some (JStr (input s)), metrics = None\<rparr>,
                     \<lparr>role = Assistant,
                       content = Some (JStr ''Error: Could not connect to backend''),
                       metrics = None\<rparr>],
                  input := [], isLoading := False\<rparr>,
               [completion_call s])" if "xs = []"
  proof -
    have "handleSend_try br (completion_call s) = Inl TypeError"
      using empty [OF that]
      by (simp add: handleSend_try_parsed [OF assms(3,4,5)] assistant_reply_raise)
    with assms(1,2) show ?thesis
      by (rule handleSend_caught)
  qed
  have first: "choices_0_text data = Inr (own x ''text'')" if "xs = x # rest" "x \<noteq> JNull"
    for x rest
    using that read by (simp add: choices_0_text_def get_prop_value)
  from empty caught first show ?thesis
    by blast
qed

theorem empty_choices_caught_witness:
  "choices_0_text no_choices = Inl TypeError \<and>
   isLoading (fst (handleSend (replying (Some (ok_200 no_choices)) 0 500) hello_app)) = False \<and>
   choices_0_text (completion_of ''hi there'') = Inr (Some (JStr ''hi there''))"
proof -
  have a: "own no_choices ''choices'' = Some (JArr [])"
    by (simp add: no_choices_def)
  have b: "own (completion_of ''hi there'') ''choices'' =
             Some (JArr [JObj [(''text'', JStr ''hi there'')]])"
    by (simp add: completion_of_def)
  from empty_choices_caught [OF hello_sendable fetch_replying ok_200_reply a]
  have one: "choices_0_text no_choices = Inl TypeError \<and>
    isLoading (fst (handleSend (replying (Some (ok_200 no_choices)) 0 500) hello_app)) = False"
    by simp
  from empty_choices_caught [OF hello_sendable fetch_replying ok_200_reply b]
  have "choices_0_text (completion_of ''hi there'') =
          Inr (own (JObj [(''text'', JStr ''hi there'')]) ''text'')"
    by blast
  then have two: "choices_0_text (completion_of ''hi there'') = Inr (Some (JStr ''hi there''))"
    by simp
  from one two show ?thesis
    by blast
qed


subsection \<open>Which exchanges store metrics\<close>





subsection \<open>The token count\<close>





subsection \<open>The rate\<close>




section \<open>Clearing the session\<close>

text \<open>
  Claim C9. After \<open>clearChat\<close> the log is empty, and the average latency, the average
  throughput, the total of tokens and the number of requests computed from it are all 0.
\<close>

theorem clear_session:
  "messages (clearChat s) = [] \<and>
   avgLatency (messages (clearChat s)) = 0 \<and>
   avgThroughput (messages (clearChat s)) = Num 0 \<and>
   totalTokens br (messages (clearChat s)) = JNum 0 \<and>
   requestCount (messages (clearChat s)) = 0"
  by (simp add: clearChat_def avgLatency_def avgThroughput_def totalTokens_def requestCount_def
       sessionMetrics_def)

end
